theory Spec2Isabelle
  imports Main "HOL-Library.Multiset"
begin

section \<open>Run-time values and the string built-ins the handler calls\<close>

text \<open>
  The autocomplete handler of \<^verbatim>\<open>src/index.ts\<close> is typed, but every prediction comes
  from an \<^verbatim>\<open>any\<close>-typed upstream payload, so what a field holds is decided at run
  time: reading an array beyond its end gives \<^verbatim>\<open>undefined\<close>, and calling a method on
  \<^verbatim>\<open>undefined\<close> throws a TypeError. Both are values of the model.

  Strings are lists of code units; the model covers the code units up to U+00FF, which is
  what an Isabelle \<^typ>\<open>char\<close> holds.
\<close>

datatype jsval = Undefined | Str string

datatype error = TypeError

text \<open>\<^verbatim>\<open>xs[i]\<close>: the element, or \<^verbatim>\<open>undefined\<close> beyond the end.\<close>

definition index_js :: "string list \<Rightarrow> nat \<Rightarrow> jsval" where
  "index_js xs i = (if i < length xs then Str (xs ! i) else Undefined)"

text \<open>\<^verbatim>\<open>xs.slice(k)\<close> for \<open>k \<ge> 0\<close>: the start is clamped to the length.\<close>

definition slice_from :: "nat \<Rightarrow> 'a list \<Rightarrow> 'a list" where
  "slice_from k xs = drop (min k (length xs)) xs"

text \<open>\<^verbatim>\<open>xs.slice(-k)\<close>: the start is \<open>max (length - k) 0\<close>, so a short array is
  returned whole.\<close>

definition slice_last :: "nat \<Rightarrow> 'a list \<Rightarrow> 'a list" where
  "slice_last k xs = drop (if k \<le> length xs then length xs - k else 0) xs"

text \<open>\<^verbatim>\<open>xs.join(sep)\<close>.\<close>

fun join :: "string \<Rightarrow> string list \<Rightarrow> string" where
  "join sep [] = []"
| "join sep [x] = x"
| "join sep (x # y # ys) = x @ sep @ join sep (y # ys)"

text \<open>\<^verbatim>\<open>v || d\<close>: \<open>v\<close> when it is truthy, else \<open>d\<close>; \<^verbatim>\<open>undefined\<close> and the empty
  string are the falsy values that occur here.\<close>

definition js_or :: "jsval \<Rightarrow> jsval \<Rightarrow> jsval" where
  "js_or v d = (case v of Undefined \<Rightarrow> d | Str s \<Rightarrow> if s = [] then d else Str s)"

text \<open>\<^verbatim>\<open>!v\<close>.\<close>

definition js_not :: "jsval \<Rightarrow> bool" where
  "js_not v = (case v of Undefined \<Rightarrow> True | Str s \<Rightarrow> s = [])"

text \<open>\<^verbatim>\<open>s.toLowerCase()\<close> on code units up to U+00FF: A-Z, and U+00C0 to U+00DE
  without the multiplication sign U+00D7, move up by 32.\<close>

definition lower_char :: "char \<Rightarrow> char" where
  "lower_char c =
     (let n = (of_char c :: nat)
      in if (65 \<le> n \<and> n \<le> 90) \<or> (192 \<le> n \<and> n \<le> 222 \<and> n \<noteq> 215)
         then char_of (n + 32) else c)"

definition toLowerCase :: "string \<Rightarrow> string" where
  "toLowerCase s = map lower_char s"

text \<open>\<^verbatim>\<open>v.toLowerCase()\<close> on a run-time value: a TypeError on \<^verbatim>\<open>undefined\<close>.\<close>

definition toLowerCase_of :: "jsval \<Rightarrow> error + string" where
  "toLowerCase_of v = (case v of Undefined \<Rightarrow> Inl TypeError | Str s \<Rightarrow> Inr (toLowerCase s))"

text \<open>\<^verbatim>\<open>s.startsWith(t)\<close> and \<^verbatim>\<open>s.includes(t)\<close>.\<close>

fun startsWith :: "string \<Rightarrow> string \<Rightarrow> bool" where
  "startsWith s [] = True"
| "startsWith [] (d # t) = False"
| "startsWith (c # s) (d # t) = (c = d \<and> startsWith s t)"

fun includes_js :: "string \<Rightarrow> string \<Rightarrow> bool" where
  "includes_js [] t = (t = [])"
| "includes_js (c # s) t = (startsWith (c # s) t \<or> includes_js s t)"

text \<open>\<^verbatim>\<open>s.trim()\<close>: white space and line terminators up to U+00FF are TAB, LF, VT, FF,
  CR, SPACE and NBSP.\<close>

definition is_space :: "char \<Rightarrow> bool" where
  "is_space c = ((of_char c :: nat) \<in> {9, 10, 11, 12, 13, 32, 160})"

definition trim :: "string \<Rightarrow> string" where
  "trim s = rev (dropWhile is_space (rev (dropWhile is_space s)))"

text \<open>A value inside a template literal: \<^verbatim>\<open>undefined\<close> prints as the word.\<close>

definition template_string :: "jsval \<Rightarrow> string" where
  "template_string v = (case v of Undefined \<Rightarrow> ''undefined'' | Str s \<Rightarrow> s)"

text \<open>\<^verbatim>\<open>Array.prototype.filter\<close> and \<^verbatim>\<open>map\<close> with a callback that may throw: the first
  exception ends the traversal.\<close>

fun filter_js :: "('a \<Rightarrow> error + bool) \<Rightarrow> 'a list \<Rightarrow> error + 'a list" where
  "filter_js f [] = Inr []"
| "filter_js f (x # xs) =
     (case f x of
        Inl e \<Rightarrow> Inl e
      | Inr b \<Rightarrow>
          (case filter_js f xs of
             Inl e \<Rightarrow> Inl e
           | Inr ys \<Rightarrow> Inr (if b then x # ys else ys)))"

fun map_js :: "('a \<Rightarrow> error + 'b) \<Rightarrow> 'a list \<Rightarrow> error + 'b list" where
  "map_js f [] = Inr []"
| "map_js f (x # xs) =
     (case f x of
        Inl e \<Rightarrow> Inl e
      | Inr y \<Rightarrow>
          (case map_js f xs of
             Inl e \<Rightarrow> Inl e
           | Inr ys \<Rightarrow> Inr (y # ys)))"

text \<open>\<^verbatim>\<open>Array.prototype.sort\<close> with a comparator. The language requires the sort to be
  stable, and for a consistent comparator the stable result is unique; it is computed here as
  an insertion sort that puts an element before the first one it does not have to follow.\<close>

fun insert_js :: "('a \<Rightarrow> 'a \<Rightarrow> int) \<Rightarrow> 'a \<Rightarrow> 'a list \<Rightarrow> 'a list" where
  "insert_js cmp x [] = [x]"
| "insert_js cmp x (y # ys) =
     (if cmp x y \<le> 0 then x # y # ys else y # insert_js cmp x ys)"

fun sort_js :: "('a \<Rightarrow> 'a \<Rightarrow> int) \<Rightarrow> 'a list \<Rightarrow> 'a list" where
  "sort_js cmp [] = []"
| "sort_js cmp (x # xs) = insert_js cmp x (sort_js cmp xs)"


section \<open>The data model\<close>

datatype matchField = City | State | Country

record PlaceSuggestion =
  name :: jsval
  address :: string
  city :: jsval
  state :: jsval
  country :: jsval
  exactMatch :: "matchField option"

text \<open>A raw prediction is the list of the values of its terms
  (\<^verbatim>\<open>prediction.terms.map(term => term.value)\<close>).\<close>

type_synonym RawPrediction = "string list"


section \<open>Step 3: parsing a prediction\<close>

definition placeSuggestion :: "RawPrediction \<Rightarrow> PlaceSuggestion" where
  "placeSuggestion terms =
     \<lparr> name = index_js terms 0,
       address = join '', '' (slice_from 1 terms),
       city = js_or (index_js (slice_last 3 terms) 0) (Str ''''),
       state = js_or (index_js (slice_last 2 terms) 0) (Str ''''),
       country = js_or (index_js (slice_last 1 terms) 0) (Str ''''),
       exactMatch = None \<rparr>"

definition placeSuggestions :: "RawPrediction list \<Rightarrow> PlaceSuggestion list" where
  "placeSuggestions predictions = map placeSuggestion predictions"


section \<open>Step 4: filter, exact-match flag, sort\<close>

text \<open>\<^verbatim>\<open>place.f.toLowerCase().includes(inputLower)\<close>\<close>

definition field_includes :: "jsval \<Rightarrow> string \<Rightarrow> error + bool" where
  "field_includes v inputLower =
     (case toLowerCase_of v of Inl e \<Rightarrow> Inl e | Inr s \<Rightarrow> Inr (includes_js s inputLower))"

text \<open>The filter callback; \<^verbatim>\<open>||\<close> evaluates its right operand only when the left one
  is false.\<close>

definition partial_match :: "string \<Rightarrow> PlaceSuggestion \<Rightarrow> error + bool" where
  "partial_match inputLower place =
     (case field_includes (city place) inputLower of
        Inl e \<Rightarrow> Inl e
      | Inr b1 \<Rightarrow>
          if b1 then Inr True
          else (case field_includes (state place) inputLower of
                  Inl e \<Rightarrow> Inl e
                | Inr b2 \<Rightarrow>
                    if b2 then Inr True
                    else field_includes (country place) inputLower))"

text \<open>\<^verbatim>\<open>place.f.toLowerCase() === inputLower\<close>\<close>

definition field_equals :: "jsval \<Rightarrow> string \<Rightarrow> error + bool" where
  "field_equals v inputLower =
     (case toLowerCase_of v of Inl e \<Rightarrow> Inl e | Inr s \<Rightarrow> Inr (s = inputLower))"

text \<open>The map callback: it assigns the flag on the place and returns it.\<close>

definition assign_exactMatch :: "string \<Rightarrow> PlaceSuggestion \<Rightarrow> error + PlaceSuggestion" where
  "assign_exactMatch inputLower place =
     (case field_equals (country place) inputLower of
        Inl e \<Rightarrow> Inl e
      | Inr b1 \<Rightarrow>
          if b1 then Inr (place\<lparr>exactMatch := Some Country\<rparr>)
          else (case field_equals (state place) inputLower of
                  Inl e \<Rightarrow> Inl e
                | Inr b2 \<Rightarrow>
                    if b2 then Inr (place\<lparr>exactMatch := Some State\<rparr>)
                    else (case field_equals (city place) inputLower of
                            Inl e \<Rightarrow> Inl e
                          | Inr b3 \<Rightarrow>
                              if b3 then Inr (place\<lparr>exactMatch := Some City\<rparr>)
                              else Inr place)))"

text \<open>\<^verbatim>\<open>priorityOrder[m || 'null']\<close>\<close>

definition priorityOrder :: "matchField option \<Rightarrow> int" where
  "priorityOrder m =
     (case m of Some City \<Rightarrow> 3 | Some State \<Rightarrow> 2 | Some Country \<Rightarrow> 1 | None \<Rightarrow> 0)"

definition compare_places :: "PlaceSuggestion \<Rightarrow> PlaceSuggestion \<Rightarrow> int" where
  "compare_places a b = priorityOrder (exactMatch b) - priorityOrder (exactMatch a)"

definition filteredResults :: "string \<Rightarrow> PlaceSuggestion list \<Rightarrow> error + PlaceSuggestion list" where
  "filteredResults inputLower places =
     (case filter_js (partial_match inputLower) places of
        Inl e \<Rightarrow> Inl e
      | Inr kept \<Rightarrow>
          (case map_js (assign_exactMatch inputLower) kept of
             Inl e \<Rightarrow> Inl e
           | Inr flagged \<Rightarrow> Inr (sort_js compare_places flagged)))"


section \<open>Step 5: removing duplicates\<close>

definition key_of :: "PlaceSuggestion \<Rightarrow> string" where
  "key_of place = template_string (name place) @ ''|'' @ address place"

text \<open>The loop over the sorted places, with its two variables as the state.\<close>

fun unique_loop ::
  "PlaceSuggestion list \<Rightarrow> PlaceSuggestion list \<times> string set
     \<Rightarrow> PlaceSuggestion list \<times> string set" where
  "unique_loop [] st = st"
| "unique_loop (place # rest) (uniqueResults, seen) =
     (if key_of place \<notin> seen
      then unique_loop rest (uniqueResults @ [place], insert (key_of place) seen)
      else unique_loop rest (uniqueResults, seen))"

definition uniqueResults :: "PlaceSuggestion list \<Rightarrow> PlaceSuggestion list" where
  "uniqueResults places = fst (unique_loop places ([], {}))"


section \<open>The transform and the handler around it\<close>

definition transform :: "string \<Rightarrow> RawPrediction list \<Rightarrow> error + PlaceSuggestion list" where
  "transform input predictions =
     (case filteredResults (toLowerCase input) (placeSuggestions predictions) of
        Inl e \<Rightarrow> Inl e
      | Inr ranked \<Rightarrow> Inr (uniqueResults ranked))"

text \<open>The upstream call either rejects (transport failure) or resolves with a payload that
  has a status and the predictions.\<close>

record google_data =
  gstatus :: string
  predictions :: "RawPrediction list"

datatype axios_result = Rejected | Resolved google_data

datatype body =
    ErrorBody string
  | ErrorDetails string google_data
  | Results "PlaceSuggestion list"

record response =
  status :: nat
  body :: body

text \<open>What the handler did on the way to its response: the upstream request and the run of
  steps 3 to 5, each with the input it was given.\<close>

datatype event = UpstreamCall string | TransformRun string

definition autocomplete :: "(string \<Rightarrow> axios_result) \<Rightarrow> jsval \<Rightarrow> response \<times> event list" where
  "autocomplete google input =
     (if js_not input \<or> (case input of Undefined \<Rightarrow> False | Str s \<Rightarrow> trim s = [])
      then (\<lparr>status = 400, body = ErrorBody ''Input parameter is required''\<rparr>, [])
      else (case input of
              Undefined \<Rightarrow> (\<lparr>status = 500, body = ErrorBody ''Internal server error''\<rparr>, [])
            | Str s \<Rightarrow>
                (case google s of
                   Rejected \<Rightarrow>
                     (\<lparr>status = 500, body = ErrorBody ''Internal server error''\<rparr>,
                      [UpstreamCall s])
                 | Resolved d \<Rightarrow>
                     if gstatus d \<noteq> ''OK''
                     then (\<lparr>status = 500,
                            body = ErrorDetails ''Failed to fetch autocomplete suggestions'' d\<rparr>,
                           [UpstreamCall s])
                     else (case transform s (predictions d) of
                             Inl e \<Rightarrow>
                               (\<lparr>status = 500, body = ErrorBody ''Internal server error''\<rparr>,
                                [UpstreamCall s, TransformRun s])
                           | Inr out \<Rightarrow>
                               (\<lparr>status = 200, body = Results out\<rparr>,
                                [UpstreamCall s, TransformRun s])))))"


section \<open>Notions used to state the properties\<close>

text \<open>Substring containment and the filter condition, written as the specification words
  them: the lowercased input occurs somewhere inside the lowercased field.\<close>

definition substring_of :: "string \<Rightarrow> string \<Rightarrow> bool" where
  "substring_of t s = (\<exists>pre suf. s = pre @ t @ suf)"

definition field_contains :: "string \<Rightarrow> jsval \<Rightarrow> bool" where
  "field_contains input v =
     (\<exists>s. v = Str s \<and> substring_of (toLowerCase input) (toLowerCase s))"

definition matches_input :: "string \<Rightarrow> PlaceSuggestion \<Rightarrow> bool" where
  "matches_input input p =
     (field_contains input (city p) \<or> field_contains input (state p)
      \<or> field_contains input (country p))"

text \<open>The three fields the filter and the flag call a method on hold strings.\<close>

definition defined_fields :: "PlaceSuggestion \<Rightarrow> bool" where
  "defined_fields p =
     (city p \<noteq> Undefined \<and> state p \<noteq> Undefined \<and> country p \<noteq> Undefined)"

text \<open>The priority weight of a place in the sort.\<close>

definition weight :: "PlaceSuggestion \<Rightarrow> int" where
  "weight p = priorityOrder (exactMatch p)"


text \<open>Exact equality of the lowercased input with a lowercased field, and the flag the
  specification gives a place: the first of \<open>country\<close>, \<open>state\<close>, \<open>city\<close> that is
  equal, else unset.\<close>

definition field_equal :: "string \<Rightarrow> jsval \<Rightarrow> bool" where
  "field_equal input v =
     (case v of Undefined \<Rightarrow> False | Str s \<Rightarrow> toLowerCase s = toLowerCase input)"

definition first_exact_field :: "string \<Rightarrow> PlaceSuggestion \<Rightarrow> matchField option" where
  "first_exact_field input p =
     (if field_equal input (country p) then Some Country
      else if field_equal input (state p) then Some State
      else if field_equal input (city p) then Some City
      else None)"

text \<open>The parsed suggestions that pass the filter, each with its flag, in input order.\<close>

definition flagged :: "string \<Rightarrow> RawPrediction list \<Rightarrow> PlaceSuggestion list" where
  "flagged input preds =
     map (\<lambda>p. p\<lparr>exactMatch := first_exact_field input p\<rparr>)
       (filter (matches_input input) (placeSuggestions preds))"


section \<open>Parsing: the positional fields\<close>

lemma index_slice_last:
  "0 < k \<Longrightarrow> index_js (slice_last k ts) 0 =
     (if ts = [] then Undefined
      else if k \<le> length ts then Str (ts ! (length ts - k)) else Str (ts ! 0))"
  by (auto simp: index_js_def slice_last_def)

lemma js_or_Str: "js_or (Str s) (Str '''') = Str s"
  by (simp add: js_or_def)

lemma js_or_defined: "js_or v (Str d) \<noteq> Undefined"
  by (simp add: js_or_def split: jsval.splits)

lemma city_cases:
  "city (placeSuggestion ts) =
     (if ts = [] then Str ''''
      else if 3 \<le> length ts then Str (ts ! (length ts - 3)) else Str (ts ! 0))"
  by (simp add: placeSuggestion_def index_slice_last js_or_Str) (simp add: js_or_def)

lemma state_cases:
  "state (placeSuggestion ts) =
     (if ts = [] then Str ''''
      else if 2 \<le> length ts then Str (ts ! (length ts - 2)) else Str (ts ! 0))"
  by (simp add: placeSuggestion_def index_slice_last js_or_Str) (simp add: js_or_def)

lemma defined_fields_parse: "defined_fields (placeSuggestion ts)"
  by (simp add: defined_fields_def placeSuggestion_def js_or_defined)

text \<open>
  Claim C1, as stated: \<open>city\<close> is the third-from-last term when there are at least three
  terms and the empty string when there are fewer. The second half fails: for the two
  terms NSW, Australia the slice of the last three is the whole array and \<open>city\<close> is its
  first element.
\<close>

theorem city_two_terms_counterexample:
  "length [''NSW'', ''Australia''] < 3 \<and>
   city (placeSuggestion [''NSW'', ''Australia'']) = Str ''NSW'' \<and>
   city (placeSuggestion [''NSW'', ''Australia'']) \<noteq> Str ''''"
  by (simp add: placeSuggestion_def slice_last_def index_js_def js_or_def)

text \<open>
  Claim C1, amended: \<open>city\<close> is the third-from-last term when there are at least three
  terms, the first term when there are one or two, and the empty string when there is none.
\<close>

theorem city_positional:
  "(3 \<le> length ts \<longrightarrow> city (placeSuggestion ts) = Str (ts ! (length ts - 3))) \<and>
   (ts \<noteq> [] \<and> length ts < 3 \<longrightarrow> city (placeSuggestion ts) = Str (ts ! 0)) \<and>
   (ts = [] \<longrightarrow> city (placeSuggestion ts) = Str '''')"
  by (auto simp: city_cases)

theorem city_positional_witness:
  "city (placeSuggestion [''MCA'', ''George St'', ''Sydney'', ''NSW'', ''Australia''])
     = Str ''Sydney'' \<and>
   city (placeSuggestion [''NSW'', ''Australia'']) = Str ''NSW'' \<and>
   city (placeSuggestion [''Australia'']) = Str ''Australia'' \<and>
   city (placeSuggestion []) = Str ''''"
  using city_positional [of "[''MCA'', ''George St'', ''Sydney'', ''NSW'', ''Australia'']"]
    city_positional [of "[''NSW'', ''Australia'']"]
    city_positional [of "[''Australia'']"]
    city_positional [of "[]"]
  by simp

text \<open>
  Claim C2, as stated: \<open>state\<close> is the second-from-last term when there are at least two
  terms and the empty string when there are fewer. The second half fails: for the single
  term Australia the slice of the last two is the whole array and \<open>state\<close> is that term.
\<close>

theorem state_one_term_counterexample:
  "length [''Australia''] < 2 \<and>
   state (placeSuggestion [''Australia'']) = Str ''Australia'' \<and>
   state (placeSuggestion [''Australia'']) \<noteq> Str ''''"
  by (simp add: placeSuggestion_def slice_last_def index_js_def js_or_def)

text \<open>
  Claim C2, amended: \<open>state\<close> is the second-from-last term when there are at least two
  terms, the only term when there is one, and the empty string when there is none.
\<close>

theorem state_positional:
  "(2 \<le> length ts \<longrightarrow> state (placeSuggestion ts) = Str (ts ! (length ts - 2))) \<and>
   (length ts = 1 \<longrightarrow> state (placeSuggestion ts) = Str (ts ! 0)) \<and>
   (ts = [] \<longrightarrow> state (placeSuggestion ts) = Str '''')"
  by (auto simp: state_cases)

theorem state_positional_witness:
  "state (placeSuggestion [''Sydney'', ''NSW'', ''Australia'']) = Str ''NSW'' \<and>
   state (placeSuggestion [''NSW'', ''Australia'']) = Str ''NSW'' \<and>
   state (placeSuggestion [''Australia'']) = Str ''Australia'' \<and>
   state (placeSuggestion []) = Str ''''"
  using state_positional [of "[''Sydney'', ''NSW'', ''Australia'']"]
    state_positional [of "[''NSW'', ''Australia'']"]
    state_positional [of "[''Australia'']"]
    state_positional [of "[]"]
  by simp

text \<open>
  Claim C3: a prediction without terms gives a suggestion whose five string fields are all
  empty. On the code \<open>address\<close>, \<open>city\<close>, \<open>state\<close> and \<open>country\<close> are empty, but
  \<open>name\<close> is read as \<^verbatim>\<open>terms[0]\<close> with no fallback and is \<^verbatim>\<open>undefined\<close>.
\<close>

theorem empty_terms_name_undefined:
  "name (placeSuggestion []) = Undefined \<and>
   name (placeSuggestion []) \<noteq> Str '''' \<and>
   address (placeSuggestion []) = '''' \<and>
   city (placeSuggestion []) = Str '''' \<and>
   state (placeSuggestion []) = Str '''' \<and>
   country (placeSuggestion []) = Str ''''"
  by (simp add: placeSuggestion_def slice_last_def slice_from_def index_js_def js_or_def)


section \<open>The filter step\<close>

lemma startsWith_iff: "startsWith s t \<longleftrightarrow> (\<exists>suf. s = t @ suf)"
  by (induction s t rule: startsWith.induct) auto

lemma includes_js_iff: "includes_js s t \<longleftrightarrow> substring_of t s"
proof (induction s)
  case Nil
  show ?case by (auto simp: substring_of_def)
next
  case (Cons c s)
  have "substring_of t (c # s) \<longleftrightarrow> (\<exists>suf. c # s = t @ suf) \<or> substring_of t s"
    unfolding substring_of_def
  proof
    assume "\<exists>pre suf. c # s = pre @ t @ suf"
    then obtain pre suf where eq: "c # s = pre @ t @ suf" by blast
    show "(\<exists>suf. c # s = t @ suf) \<or> (\<exists>pre suf. s = pre @ t @ suf)"
    proof (cases pre)
      case Nil
      with eq show ?thesis by auto
    next
      case (Cons a pre')
      with eq have "s = pre' @ t @ suf" by simp
      then show ?thesis by blast
    qed
  next
    assume "(\<exists>suf. c # s = t @ suf) \<or> (\<exists>pre suf. s = pre @ t @ suf)"
    then show "\<exists>pre suf. c # s = pre @ t @ suf"
    proof
      assume "\<exists>suf. c # s = t @ suf"
      then obtain suf where "c # s = [] @ t @ suf" by auto
      then show ?thesis by blast
    next
      assume "\<exists>pre suf. s = pre @ t @ suf"
      then obtain pre suf where "c # s = (c # pre) @ t @ suf" by auto
      then show ?thesis by blast
    qed
  qed
  with Cons show ?case by (simp add: startsWith_iff)
qed

lemma field_includes_defined:
  "v \<noteq> Undefined \<Longrightarrow> field_includes v (toLowerCase input) = Inr (field_contains input v)"
  by (cases v)
     (simp_all add: field_includes_def toLowerCase_of_def field_contains_def includes_js_iff)

lemma partial_match_defined:
  "defined_fields p \<Longrightarrow> partial_match (toLowerCase input) p = Inr (matches_input input p)"
  by (simp add: partial_match_def defined_fields_def field_includes_defined matches_input_def)

lemma filter_js_total:
  "\<forall>x\<in>set xs. f x = Inr (P x) \<Longrightarrow> filter_js f xs = Inr (filter P xs)"
  by (induction xs) simp_all

lemma filter_parsed:
  "filter_js (partial_match (toLowerCase input)) (placeSuggestions preds)
     = Inr (filter (matches_input input) (placeSuggestions preds))"
  by (rule filter_js_total)
     (auto simp: placeSuggestions_def partial_match_defined defined_fields_parse)


section \<open>The exact-match flag\<close>

lemma field_equals_Str: "field_equals (Str s) il = Inr (toLowerCase s = il)"
  by (simp add: field_equals_def toLowerCase_of_def)

lemma assign_defined:
  "defined_fields p \<Longrightarrow>
   \<exists>p'. assign_exactMatch il p = Inr p' \<and> defined_fields p' \<and>
        name p' = name p \<and> address p' = address p"
  by (cases "city p"; cases "state p"; cases "country p")
     (auto simp: defined_fields_def assign_exactMatch_def field_equals_Str)


section \<open>The sort step\<close>

lemma compare_le: "compare_places x y \<le> 0 \<longleftrightarrow> weight y \<le> weight x"
  by (simp add: compare_places_def weight_def)

lemma set_insert_js: "set (insert_js cmp x ys) = insert x (set ys)"
  by (induction ys) auto

lemma mset_insert_js: "mset (insert_js cmp x ys) = add_mset x (mset ys)"
  by (induction ys) auto

lemma mset_sort_js: "mset (sort_js cmp xs) = mset xs"
  by (induction xs) (simp_all add: mset_insert_js)

lemma descending_insert:
  "sorted_wrt (\<lambda>a b. weight b \<le> weight a) ys \<Longrightarrow>
   sorted_wrt (\<lambda>a b. weight b \<le> weight a) (insert_js compare_places x ys)"
  by (induction ys) (auto simp: compare_le set_insert_js)

lemma descending_sort:
  "sorted_wrt (\<lambda>a b. weight b \<le> weight a) (sort_js compare_places xs)"
  by (induction xs) (simp_all add: descending_insert)

text \<open>An inserted place only moves past places of strictly greater weight, so within its own
  weight class it stays in front.\<close>

lemma class_insert_other:
  "weight x \<noteq> w \<Longrightarrow>
   filter (\<lambda>p. weight p = w) (insert_js compare_places x ys) = filter (\<lambda>p. weight p = w) ys"
  by (induction ys) auto

lemma class_insert_same:
  "weight x = w \<Longrightarrow>
   filter (\<lambda>p. weight p = w) (insert_js compare_places x ys)
     = x # filter (\<lambda>p. weight p = w) ys"
  by (induction ys) (auto simp: compare_le)

lemma class_sort:
  "filter (\<lambda>p. weight p = w) (sort_js compare_places xs) = filter (\<lambda>p. weight p = w) xs"
  by (induction xs) (simp_all add: class_insert_other class_insert_same)

lemma sort_three:
  "exactMatch a = Some City \<Longrightarrow> exactMatch b = Some Country \<Longrightarrow> exactMatch c = None \<Longrightarrow>
   sort_js compare_places [a, b, c] = [a, b, c]"
  by (simp add: compare_places_def priorityOrder_def)


section \<open>Removing duplicates\<close>

lemma unique_loop_inv:
  "distinct (map key_of u) \<Longrightarrow> key_of ` set u = seen \<Longrightarrow>
   distinct (map key_of (fst (unique_loop ps (u, seen)))) \<and>
   set (fst (unique_loop ps (u, seen))) \<subseteq> set u \<union> set ps"
proof (induction ps arbitrary: u seen)
  case Nil
  then show ?case by simp
next
  case (Cons p ps)
  show ?case
  proof (cases "key_of p \<in> seen")
    case True
    with Cons.IH [OF Cons.prems] show ?thesis by auto
  next
    case False
    have d: "distinct (map key_of (u @ [p]))" using Cons.prems False by auto
    have s: "key_of ` set (u @ [p]) = insert (key_of p) seen" using Cons.prems by auto
    from Cons.IH [OF d s] False show ?thesis by auto
  qed
qed

lemma distinct_keys_unique: "distinct (map key_of (uniqueResults ps))"
  using unique_loop_inv [of "[]" "{}" ps] by (simp add: uniqueResults_def)

lemma distinct_pairs_of_keys:
  "distinct (map key_of xs) \<Longrightarrow> distinct (map (\<lambda>p. (name p, address p)) xs)"
proof (induction xs)
  case Nil
  show ?case by simp
next
  case (Cons x xs)
  have "(name x, address x) \<notin> (\<lambda>p. (name p, address p)) ` set xs"
  proof
    assume "(name x, address x) \<in> (\<lambda>p. (name p, address p)) ` set xs"
    then obtain y where "y \<in> set xs" "name y = name x" "address y = address x" by auto
    then have "y \<in> set xs" and "key_of x = key_of y" by (simp_all add: key_of_def)
    then have "key_of x \<in> key_of ` set xs" by (metis imageI)
    with Cons.prems show False by simp
  qed
  with Cons show ?case by simp
qed

text \<open>
  Claim C7: the loop keeps the first occurrence of every (\<open>name\<close>, \<open>address\<close>) pair and
  drops no place whose pair differs from all earlier ones. The loop compares the joined text
  \<^verbatim>\<open>name|address\<close>, and two different pairs can join to the same text: the pairs
  (\<open>a|b\<close>, \<open>x\<close>) and (\<open>a\<close>, \<open>b|x\<close>) both give \<open>a|b|x\<close>, so the second place is
  dropped although its pair is new. The same happens in the whole transform for the input
  \<open>x\<close> and the predictions with these terms.
\<close>

theorem dedup_key_collision:
  "uniqueResults
     [\<lparr>name = Str ''a|b'', address = ''x'', city = Str ''a|b'', state = Str ''a|b'',
        country = Str ''x'', exactMatch = Some Country\<rparr>,
      \<lparr>name = Str ''a'', address = ''b|x'', city = Str ''a'', state = Str ''a'',
        country = Str ''b|x'', exactMatch = None\<rparr>]
   = [\<lparr>name = Str ''a|b'', address = ''x'', city = Str ''a|b'', state = Str ''a|b'',
        country = Str ''x'', exactMatch = Some Country\<rparr>] \<and>
   (Str ''a'', ''b|x'') \<noteq> (Str ''a|b'', ''x'') \<and>
   transform ''x'' [[''a|b'', ''x''], [''a'', ''b|x'']]
   = Inr [\<lparr>name = Str ''a|b'', address = ''x'', city = Str ''a|b'', state = Str ''a|b'',
        country = Str ''x'', exactMatch = Some Country\<rparr>]"
proof (intro conjI)
  show "uniqueResults
     [\<lparr>name = Str ''a|b'', address = ''x'', city = Str ''a|b'', state = Str ''a|b'',
        country = Str ''x'', exactMatch = Some Country\<rparr>,
      \<lparr>name = Str ''a'', address = ''b|x'', city = Str ''a'', state = Str ''a'',
        country = Str ''b|x'', exactMatch = None\<rparr>]
   = [\<lparr>name = Str ''a|b'', address = ''x'', city = Str ''a|b'', state = Str ''a|b'',
        country = Str ''x'', exactMatch = Some Country\<rparr>]"
    by (simp add: uniqueResults_def key_of_def template_string_def)
  show "(Str ''a'', ''b|x'') \<noteq> (Str ''a|b'', ''x'')" by simp
  show "transform ''x'' [[''a|b'', ''x''], [''a'', ''b|x'']]
   = Inr [\<lparr>name = Str ''a|b'', address = ''x'', city = Str ''a|b'', state = Str ''a|b'',
        country = Str ''x'', exactMatch = Some Country\<rparr>]"
    by code_simp
qed


section \<open>The steps inside the handler's chain\<close>

text \<open>On parsed suggestions the chain of filter, flag and sort never throws and is the
  sort of the flagged list; the transform removes duplicates from it.\<close>

lemma map_js_total:
  "\<forall>x\<in>set xs. f x = Inr (g x) \<Longrightarrow> map_js f xs = Inr (map g xs)"
  by (induction xs) simp_all

lemma exactMatch_parse: "exactMatch (placeSuggestion ts) = None"
  by (simp add: placeSuggestion_def)

lemma assign_parsed:
  "defined_fields p \<Longrightarrow> exactMatch p = None \<Longrightarrow>
   assign_exactMatch (toLowerCase input) p = Inr (p\<lparr>exactMatch := first_exact_field input p\<rparr>)"
  by (cases "city p"; cases "state p"; cases "country p")
     (simp_all add: defined_fields_def assign_exactMatch_def field_equals_Str
        first_exact_field_def field_equal_def)

lemma flag_kept:
  "map_js (assign_exactMatch (toLowerCase input))
     (filter (matches_input input) (placeSuggestions preds)) = Inr (flagged input preds)"
  unfolding flagged_def
  by (rule map_js_total)
     (auto simp: placeSuggestions_def defined_fields_parse exactMatch_parse assign_parsed)

lemma filteredResults_chain:
  "filteredResults (toLowerCase input) (placeSuggestions preds)
     = Inr (sort_js compare_places (flagged input preds))"
  by (simp add: filteredResults_def filter_parsed flag_kept)

lemma transform_chain:
  "transform input preds = Inr (uniqueResults (sort_js compare_places (flagged input preds)))"
  by (simp add: transform_def filteredResults_chain)

lemma set_sort_js: "set (sort_js cmp xs) = set xs"
  by (induction xs) (simp_all add: set_insert_js)

lemma matches_input_flag [simp]:
  "matches_input input (p\<lparr>exactMatch := m\<rparr>) = matches_input input p"
  by (simp add: matches_input_def)

lemma first_exact_field_flag [simp]:
  "first_exact_field input (p\<lparr>exactMatch := m\<rparr>) = first_exact_field input p"
  by (simp add: first_exact_field_def)

lemma flagged_member:
  "q \<in> set (flagged input preds) \<Longrightarrow>
   matches_input input q \<and> exactMatch q = first_exact_field input q"
  by (auto simp: flagged_def)

lemma unflag_flagged:
  "map (\<lambda>p. p\<lparr>exactMatch := None\<rparr>) (flagged input preds)
     = filter (matches_input input) (placeSuggestions preds)"
proof -
  let ?kept = "filter (matches_input input) (placeSuggestions preds)"
  have "\<And>p. p \<in> set ?kept \<Longrightarrow> p\<lparr>exactMatch := None\<rparr> = p"
    by (auto simp: placeSuggestions_def placeSuggestion_def)
  then have idem: "map (\<lambda>p. p\<lparr>exactMatch := None\<rparr>) ?kept = ?kept"
    by (rule map_idI)
  have "map (\<lambda>p. p\<lparr>exactMatch := None\<rparr>) (flagged input preds)
      = map (\<lambda>p. p\<lparr>exactMatch := None\<rparr>) ?kept"
    by (simp add: flagged_def o_def)
  also note idem
  finally show ?thesis .
qed

lemma unique_loop_facts:
  "key_of ` set u = seen \<Longrightarrow>
   key_of ` set (fst (unique_loop ps (u, seen))) = seen \<union> key_of ` set ps"
proof (induction ps arbitrary: u seen)
  case Nil
  then show ?case by simp
next
  case (Cons p ps)
  show ?case
  proof (cases "key_of p \<in> seen")
    case True
    with Cons.IH [OF Cons.prems] show ?thesis by auto
  next
    case False
    have s: "key_of ` set (u @ [p]) = insert (key_of p) seen" using Cons.prems by auto
    from Cons.IH [OF s] False show ?thesis by auto
  qed
qed

lemma keys_uniqueResults: "key_of ` set (uniqueResults ps) = key_of ` set ps"
  using unique_loop_facts [of "[]" "{}" ps] by (simp add: uniqueResults_def)

lemma set_uniqueResults: "set (uniqueResults ps) \<subseteq> set ps"
  using unique_loop_inv [of "[]" "{}" ps] by (simp add: uniqueResults_def)

lemma unique_loop_order:
  "sorted_wrt R (u @ ps) \<Longrightarrow> sorted_wrt R (fst (unique_loop ps (u, seen)))"
proof (induction ps arbitrary: u seen)
  case Nil
  then show ?case by simp
next
  case (Cons p ps)
  show ?case
  proof (cases "key_of p \<in> seen")
    case True
    from Cons.prems have "sorted_wrt R (u @ ps)" by (auto simp: sorted_wrt_append)
    from Cons.IH [OF this] True show ?thesis by simp
  next
    case False
    from Cons.prems have "sorted_wrt R ((u @ [p]) @ ps)" by simp
    from Cons.IH [OF this] False show ?thesis by simp
  qed
qed

lemma order_uniqueResults: "sorted_wrt R ps \<Longrightarrow> sorted_wrt R (uniqueResults ps)"
  using unique_loop_order [of R "[]" ps "{}"] by (simp add: uniqueResults_def)

lemma transform_member:
  "transform input preds = Inr out \<Longrightarrow> q \<in> set out \<Longrightarrow>
   matches_input input q \<and> exactMatch q = first_exact_field input q"
  using set_uniqueResults [of "sort_js compare_places (flagged input preds)"]
  by (auto simp: transform_chain set_sort_js dest: flagged_member)

lemma transform_represents:
  assumes "transform input preds = Inr out" and "p \<in> set (placeSuggestions preds)"
    and "matches_input input p"
  shows "\<exists>q\<in>set out. key_of q = key_of p"
proof -
  have "p\<lparr>exactMatch := first_exact_field input p\<rparr> \<in> set (flagged input preds)"
    using assms by (auto simp: flagged_def)
  then have "key_of (p\<lparr>exactMatch := first_exact_field input p\<rparr>)
      \<in> key_of ` set (sort_js compare_places (flagged input preds))"
    unfolding set_sort_js by (rule imageI)
  then have "key_of p \<in> key_of ` set (sort_js compare_places (flagged input preds))"
    by (simp add: key_of_def)
  moreover have "out = uniqueResults (sort_js compare_places (flagged input preds))"
    using assms(1) by (simp add: transform_chain)
  ultimately have "key_of p \<in> key_of ` set out"
    by (simp add: keys_uniqueResults)
  then show ?thesis by (auto simp: image_iff)
qed

lemma transform_descending:
  "transform input preds = Inr out \<Longrightarrow> sorted_wrt (\<lambda>a b. weight b \<le> weight a) out"
  by (auto simp: transform_chain intro: order_uniqueResults descending_sort)

lemma mset_unflag_ranked:
  "mset (map (\<lambda>p. p\<lparr>exactMatch := None\<rparr>) (sort_js compare_places (flagged input preds)))
     = mset (filter (matches_input input) (placeSuggestions preds))"
proof -
  have "mset (map (\<lambda>p. p\<lparr>exactMatch := None\<rparr>) (sort_js compare_places (flagged input preds)))
      = image_mset (\<lambda>p. p\<lparr>exactMatch := None\<rparr>) (mset (flagged input preds))"
    by (simp add: mset_sort_js)
  also have "\<dots> = mset (map (\<lambda>p. p\<lparr>exactMatch := None\<rparr>) (flagged input preds))"
    by simp
  finally show ?thesis by (simp only: unflag_flagged)
qed

text \<open>
  Claim C4: the filter keeps a parsed suggestion if and only if the lowercased input is a
  substring of the lowercased \<open>city\<close>, \<open>state\<close> or \<open>country\<close>. The filter call
  does not throw and returns exactly the sub-list of the suggestions that pass, in their
  order. In the handler's chain the filtered, flagged and sorted list holds, flags aside,
  exactly the suggestions that pass, each as often as it occurs. In the output of the whole
  transform every place passes the check, so a suggestion failing all three checks is nowhere
  in it, and every suggestion that passes is there under its duplicate key.
\<close>

theorem filter_keeps_iff_substring:
  "filter_js (partial_match (toLowerCase input)) (placeSuggestions preds)
     = Inr (filter (matches_input input) (placeSuggestions preds)) \<and>
   set (filter (matches_input input) (placeSuggestions preds))
     = {p. p \<in> set (placeSuggestions preds) \<and>
           (field_contains input (city p) \<or> field_contains input (state p)
            \<or> field_contains input (country p))} \<and>
   (\<exists>ranked. filteredResults (toLowerCase input) (placeSuggestions preds) = Inr ranked \<and>
      mset (map (\<lambda>p. p\<lparr>exactMatch := None\<rparr>) ranked)
        = mset (filter (matches_input input) (placeSuggestions preds))) \<and>
   (\<forall>out. transform input preds = Inr out \<longrightarrow>
      (\<forall>q\<in>set out. matches_input input q) \<and>
      (\<forall>p\<in>set (placeSuggestions preds).
          matches_input input p \<longrightarrow> (\<exists>q\<in>set out. key_of q = key_of p)))"
proof (intro conjI allI impI ballI)
  show "filter_js (partial_match (toLowerCase input)) (placeSuggestions preds)
     = Inr (filter (matches_input input) (placeSuggestions preds))"
    by (rule filter_parsed)
  show "set (filter (matches_input input) (placeSuggestions preds))
     = {p. p \<in> set (placeSuggestions preds) \<and>
           (field_contains input (city p) \<or> field_contains input (state p)
            \<or> field_contains input (country p))}"
    by (auto simp: matches_input_def)
  show "\<exists>ranked. filteredResults (toLowerCase input) (placeSuggestions preds) = Inr ranked \<and>
      mset (map (\<lambda>p. p\<lparr>exactMatch := None\<rparr>) ranked)
        = mset (filter (matches_input input) (placeSuggestions preds))"
    using filteredResults_chain [of input preds] mset_unflag_ranked [of input preds] by blast
next
  fix out q
  assume "transform input preds = Inr out" and "q \<in> set out"
  then show "matches_input input q" using transform_member by blast
next
  fix out p
  assume "transform input preds = Inr out" and "p \<in> set (placeSuggestions preds)"
    and "matches_input input p"
  then show "\<exists>q\<in>set out. key_of q = key_of p" by (rule transform_represents)
qed

theorem filter_keeps_iff_substring_witness:
  "matches_input ''NSW''
     \<lparr>name = Str ''Sydney'', address = ''NSW, Australia'', city = Str ''Sydney'',
      state = Str ''NSW'', country = Str ''Australia'', exactMatch = None\<rparr> \<and>
   \<not> matches_input ''NSW''
     \<lparr>name = Str ''Perth'', address = ''WA, Australia'', city = Str ''Perth'',
      state = Str ''WA'', country = Str ''Australia'', exactMatch = None\<rparr> \<and>
   transform ''NSW'' [[''Sydney'', ''NSW'', ''Australia''], [''Perth'', ''WA'', ''Australia'']]
     = Inr [\<lparr>name = Str ''Sydney'', address = ''NSW, Australia'', city = Str ''Sydney'',
             state = Str ''NSW'', country = Str ''Australia'', exactMatch = Some State\<rparr>] \<and>
   matches_input ''NSW''
     \<lparr>name = Str ''Sydney'', address = ''NSW, Australia'', city = Str ''Sydney'',
      state = Str ''NSW'', country = Str ''Australia'', exactMatch = Some State\<rparr>"
proof -
  let ?A = "\<lparr>name = Str ''Sydney'', address = ''NSW, Australia'', city = Str ''Sydney'',
      state = Str ''NSW'', country = Str ''Australia'', exactMatch = None\<rparr>"
  let ?B = "\<lparr>name = Str ''Perth'', address = ''WA, Australia'', city = Str ''Perth'',
      state = Str ''WA'', country = Str ''Australia'', exactMatch = None\<rparr>"
  let ?A' = "\<lparr>name = Str ''Sydney'', address = ''NSW, Australia'', city = Str ''Sydney'',
      state = Str ''NSW'', country = Str ''Australia'', exactMatch = Some State\<rparr>"
  let ?preds = "[[''Sydney'', ''NSW'', ''Australia''], [''Perth'', ''WA'', ''Australia'']]"
  have ps: "placeSuggestions ?preds = [?A, ?B]"
    by code_simp
  have f: "filter_js (partial_match (toLowerCase ''NSW'')) (placeSuggestions ?preds) = Inr [?A]"
    by code_simp
  have t: "transform ''NSW'' ?preds = Inr [?A']"
    by code_simp
  note inst = filter_keeps_iff_substring [of "''NSW''" ?preds]
  from inst f have "Inr (filter (matches_input ''NSW'') (placeSuggestions ?preds))
      = (Inr [?A] :: error + PlaceSuggestion list)"
    by metis
  then have "filter (matches_input ''NSW'') [?A, ?B] = [?A]"
    unfolding ps by (simp only: sum.inject)
  moreover have "?A \<noteq> ?B" by simp
  ultimately have m: "matches_input ''NSW'' ?A \<and> \<not> matches_input ''NSW'' ?B"
    by (cases "matches_input ''NSW'' ?A"; cases "matches_input ''NSW'' ?B") simp_all
  from inst t have "\<forall>q\<in>set [?A']. matches_input ''NSW'' q"
    by blast
  then have "matches_input ''NSW'' ?A'" by simp
  with m t show ?thesis by blast
qed

text \<open>
  Claim C5: on a surviving suggestion (its \<open>city\<close>, \<open>state\<close> and \<open>country\<close> are
  strings) the flag step compares the lowercased input for equality with the lowercased
  \<open>country\<close>, then \<open>state\<close>, then \<open>city\<close>; \<open>exactMatch\<close> becomes the first field that
  is equal and is left as it was (unset after parsing) when none is, and the other fields are
  not touched. In the handler's chain every place of the filtered, flagged and sorted list,
  and every place of the transform's output, carries that flag: \<open>country\<close> when the country
  is equal, whatever \<open>city\<close> holds, and none when no field is equal.
\<close>

theorem exactMatch_first_exact_field:
  "(country p = Str co \<and> state p = Str st \<and> city p = Str ci \<longrightarrow>
     (\<exists>p'. assign_exactMatch (toLowerCase input) p = Inr p' \<and>
      name p' = name p \<and> address p' = address p \<and> city p' = city p \<and>
      state p' = state p \<and> country p' = country p \<and>
      (toLowerCase co = toLowerCase input \<longrightarrow> exactMatch p' = Some Country) \<and>
      (toLowerCase co \<noteq> toLowerCase input \<and> toLowerCase st = toLowerCase input
         \<longrightarrow> exactMatch p' = Some State) \<and>
      (toLowerCase co \<noteq> toLowerCase input \<and> toLowerCase st \<noteq> toLowerCase input \<and>
       toLowerCase ci = toLowerCase input \<longrightarrow> exactMatch p' = Some City) \<and>
      (toLowerCase co \<noteq> toLowerCase input \<and> toLowerCase st \<noteq> toLowerCase input \<and>
       toLowerCase ci \<noteq> toLowerCase input \<longrightarrow> exactMatch p' = exactMatch p))) \<and>
   (\<exists>ranked. filteredResults (toLowerCase input) (placeSuggestions preds) = Inr ranked \<and>
      (\<forall>q\<in>set ranked. exactMatch q = first_exact_field input q)) \<and>
   (\<forall>out. transform input preds = Inr out \<longrightarrow>
      (\<forall>q\<in>set out. exactMatch q = first_exact_field input q \<and>
         (field_equal input (country q) \<longrightarrow> exactMatch q = Some Country)))"
proof (intro conjI)
  show "country p = Str co \<and> state p = Str st \<and> city p = Str ci \<longrightarrow>
     (\<exists>p'. assign_exactMatch (toLowerCase input) p = Inr p' \<and>
      name p' = name p \<and> address p' = address p \<and> city p' = city p \<and>
      state p' = state p \<and> country p' = country p \<and>
      (toLowerCase co = toLowerCase input \<longrightarrow> exactMatch p' = Some Country) \<and>
      (toLowerCase co \<noteq> toLowerCase input \<and> toLowerCase st = toLowerCase input
         \<longrightarrow> exactMatch p' = Some State) \<and>
      (toLowerCase co \<noteq> toLowerCase input \<and> toLowerCase st \<noteq> toLowerCase input \<and>
       toLowerCase ci = toLowerCase input \<longrightarrow> exactMatch p' = Some City) \<and>
      (toLowerCase co \<noteq> toLowerCase input \<and> toLowerCase st \<noteq> toLowerCase input \<and>
       toLowerCase ci \<noteq> toLowerCase input \<longrightarrow> exactMatch p' = exactMatch p))"
    by (simp add: assign_exactMatch_def field_equals_Str)
  have "\<forall>q\<in>set (sort_js compare_places (flagged input preds)).
          exactMatch q = first_exact_field input q"
    by (simp add: set_sort_js flagged_member)
  then show "\<exists>ranked. filteredResults (toLowerCase input) (placeSuggestions preds) = Inr ranked \<and>
      (\<forall>q\<in>set ranked. exactMatch q = first_exact_field input q)"
    using filteredResults_chain [of input preds] by blast
  show "\<forall>out. transform input preds = Inr out \<longrightarrow>
      (\<forall>q\<in>set out. exactMatch q = first_exact_field input q \<and>
         (field_equal input (country q) \<longrightarrow> exactMatch q = Some Country))"
  proof (intro allI impI ballI)
    fix out q
    assume "transform input preds = Inr out" and "q \<in> set out"
    then have "exactMatch q = first_exact_field input q" using transform_member by blast
    then show "exactMatch q = first_exact_field input q \<and>
         (field_equal input (country q) \<longrightarrow> exactMatch q = Some Country)"
      by (simp add: first_exact_field_def)
  qed
qed

theorem exactMatch_first_exact_field_witness:
  "(\<exists>p'. assign_exactMatch (toLowerCase ''australia'') (placeSuggestion [''Australia''])
            = Inr p' \<and>
         city p' = Str ''Australia'' \<and> country p' = Str ''Australia'' \<and>
         exactMatch p' = Some Country) \<and>
   (\<exists>p'. assign_exactMatch (toLowerCase ''NSW'')
            (placeSuggestion [''Sydney'', ''NSW'', ''Australia'']) = Inr p' \<and>
         exactMatch p' = Some State) \<and>
   transform ''australia'' [[''Australia'']]
     = Inr [\<lparr>name = Str ''Australia'', address = '''', city = Str ''Australia'',
             state = Str ''Australia'', country = Str ''Australia'',
             exactMatch = Some Country\<rparr>] \<and>
   first_exact_field ''australia''
     \<lparr>name = Str ''Australia'', address = '''', city = Str ''Australia'',
      state = Str ''Australia'', country = Str ''Australia'',
      exactMatch = Some Country\<rparr> = Some Country"
proof -
  let ?Q = "\<lparr>name = Str ''Australia'', address = '''', city = Str ''Australia'',
      state = Str ''Australia'', country = Str ''Australia'', exactMatch = Some Country\<rparr>"
  have f: "country (placeSuggestion [''Australia'']) = Str ''Australia'' \<and>
    state (placeSuggestion [''Australia'']) = Str ''Australia'' \<and>
    city (placeSuggestion [''Australia'']) = Str ''Australia''"
    by (simp add: placeSuggestion_def slice_last_def index_js_def js_or_def)
  have g: "country (placeSuggestion [''Sydney'', ''NSW'', ''Australia'']) = Str ''Australia'' \<and>
    state (placeSuggestion [''Sydney'', ''NSW'', ''Australia'']) = Str ''NSW'' \<and>
    city (placeSuggestion [''Sydney'', ''NSW'', ''Australia'']) = Str ''Sydney''"
    by (simp add: placeSuggestion_def slice_last_def index_js_def js_or_def)
  have l: "toLowerCase ''Australia'' = toLowerCase ''australia''"
    by code_simp
  have m: "toLowerCase ''Australia'' \<noteq> toLowerCase ''NSW''"
    by code_simp
  have t: "transform ''australia'' [[''Australia'']] = Inr [?Q]"
    by code_simp
  note one = exactMatch_first_exact_field
    [of "placeSuggestion [''Australia'']" "''Australia''" "''Australia''" "''Australia''"
      "''australia''" "[[''Australia'']]"]
  note two = exactMatch_first_exact_field
    [of "placeSuggestion [''Sydney'', ''NSW'', ''Australia'']" "''Australia''" "''NSW''"
      "''Sydney''" "''NSW''" "[]"]
  from one f l
  have a: "\<exists>p'. assign_exactMatch (toLowerCase ''australia'') (placeSuggestion [''Australia''])
            = Inr p' \<and>
         city p' = Str ''Australia'' \<and> country p' = Str ''Australia'' \<and>
         exactMatch p' = Some Country"
    by auto
  from two g m
  have b: "\<exists>p'. assign_exactMatch (toLowerCase ''NSW'')
            (placeSuggestion [''Sydney'', ''NSW'', ''Australia'']) = Inr p' \<and>
         exactMatch p' = Some State"
    by auto
  from one t have "\<forall>q\<in>set [?Q]. exactMatch q = first_exact_field ''australia'' q"
    by blast
  then have c: "first_exact_field ''australia'' ?Q = Some Country"
    by simp
  from a b t c show ?thesis by blast
qed

text \<open>
  Claim C6: the sort step is a stable sort in descending order of the weight city 3, state 2,
  country 1, unset 0. The sorted list is a rearrangement of its argument, every place is
  followed only by places of at most its weight, and the places of any one weight are in
  their input order; three places flagged city, country and unset, in that order, stay in
  that order. In the handler's chain this is what happens to the flagged list: the result of
  the chain is a rearrangement of what the flag step returned, descending in weight, each
  weight class in the order the flag step gave it; the transform's output is descending in
  weight as well.
\<close>

theorem sort_stable_descending:
  "priorityOrder (Some City) = 3 \<and> priorityOrder (Some State) = 2 \<and>
   priorityOrder (Some Country) = 1 \<and> priorityOrder None = 0 \<and>
   mset (sort_js compare_places ps) = mset ps \<and>
   sorted_wrt (\<lambda>a b. weight b \<le> weight a) (sort_js compare_places ps) \<and>
   (\<forall>w. filter (\<lambda>p. weight p = w) (sort_js compare_places ps)
          = filter (\<lambda>p. weight p = w) ps) \<and>
   (exactMatch a = Some City \<and> exactMatch b = Some Country \<and> exactMatch c = None
      \<longrightarrow> sort_js compare_places [a, b, c] = [a, b, c]) \<and>
   (\<exists>kept fl ranked.
      filter_js (partial_match (toLowerCase input)) (placeSuggestions preds) = Inr kept \<and>
      map_js (assign_exactMatch (toLowerCase input)) kept = Inr fl \<and>
      filteredResults (toLowerCase input) (placeSuggestions preds) = Inr ranked \<and>
      mset ranked = mset fl \<and>
      sorted_wrt (\<lambda>a b. weight b \<le> weight a) ranked \<and>
      (\<forall>w. filter (\<lambda>p. weight p = w) ranked = filter (\<lambda>p. weight p = w) fl)) \<and>
   (\<forall>out. transform input preds = Inr out \<longrightarrow>
      sorted_wrt (\<lambda>a b. weight b \<le> weight a) out)"
proof -
  have w: "priorityOrder (Some City) = 3 \<and> priorityOrder (Some State) = 2 \<and>
        priorityOrder (Some Country) = 1 \<and> priorityOrder None = 0"
    by (simp add: priorityOrder_def)
  have step: "mset (sort_js compare_places ps) = mset ps \<and>
   sorted_wrt (\<lambda>a b. weight b \<le> weight a) (sort_js compare_places ps) \<and>
   (\<forall>w. filter (\<lambda>p. weight p = w) (sort_js compare_places ps)
          = filter (\<lambda>p. weight p = w) ps) \<and>
   (exactMatch a = Some City \<and> exactMatch b = Some Country \<and> exactMatch c = None
      \<longrightarrow> sort_js compare_places [a, b, c] = [a, b, c])"
    using mset_sort_js [of compare_places ps] descending_sort [of ps] class_sort [of _ ps]
      sort_three [of a b c]
    by blast
  let ?fl = "flagged input preds"
  have chain: "\<exists>kept fl ranked.
      filter_js (partial_match (toLowerCase input)) (placeSuggestions preds) = Inr kept \<and>
      map_js (assign_exactMatch (toLowerCase input)) kept = Inr fl \<and>
      filteredResults (toLowerCase input) (placeSuggestions preds) = Inr ranked \<and>
      mset ranked = mset fl \<and>
      sorted_wrt (\<lambda>a b. weight b \<le> weight a) ranked \<and>
      (\<forall>w. filter (\<lambda>p. weight p = w) ranked = filter (\<lambda>p. weight p = w) fl)"
    using filter_parsed [of input preds] flag_kept [of input preds]
      filteredResults_chain [of input preds] mset_sort_js [of compare_places ?fl]
      descending_sort [of ?fl] class_sort [of _ ?fl]
    by blast
  have out: "\<forall>out. transform input preds = Inr out \<longrightarrow>
      sorted_wrt (\<lambda>a b. weight b \<le> weight a) out"
    using transform_descending by blast
  from w step chain out show ?thesis by blast
qed

theorem sort_stable_descending_witness:
  "sort_js compare_places
     [\<lparr>name = Str ''Perth'', address = ''WA, Australia'', city = Str ''Perth'',
        state = Str ''WA'', country = Str ''Australia'', exactMatch = Some City\<rparr>,
      \<lparr>name = Str ''Perth'', address = '''', city = Str ''Perth'',
        state = Str ''Perth'', country = Str ''Perth'', exactMatch = Some Country\<rparr>,
      \<lparr>name = Str ''Perthville'', address = ''NSW, Australia'', city = Str ''Perthville'',
        state = Str ''NSW'', country = Str ''Australia'', exactMatch = None\<rparr>]
   = [\<lparr>name = Str ''Perth'', address = ''WA, Australia'', city = Str ''Perth'',
        state = Str ''WA'', country = Str ''Australia'', exactMatch = Some City\<rparr>,
      \<lparr>name = Str ''Perth'', address = '''', city = Str ''Perth'',
        state = Str ''Perth'', country = Str ''Perth'', exactMatch = Some Country\<rparr>,
      \<lparr>name = Str ''Perthville'', address = ''NSW, Australia'', city = Str ''Perthville'',
        state = Str ''NSW'', country = Str ''Australia'', exactMatch = None\<rparr>] \<and>
   transform ''perth''
     [[''Perthville'', ''NSW'', ''Australia''], [''Perth''], [''Perth'', ''WA'', ''Australia'']]
   = Inr [\<lparr>name = Str ''Perth'', address = ''WA, Australia'', city = Str ''Perth'',
        state = Str ''WA'', country = Str ''Australia'', exactMatch = Some City\<rparr>,
      \<lparr>name = Str ''Perth'', address = '''', city = Str ''Perth'',
        state = Str ''Perth'', country = Str ''Perth'', exactMatch = Some Country\<rparr>,
      \<lparr>name = Str ''Perthville'', address = ''NSW, Australia'', city = Str ''Perthville'',
        state = Str ''NSW'', country = Str ''Australia'', exactMatch = None\<rparr>] \<and>
   sorted_wrt (\<lambda>a b. weight b \<le> weight a)
     [\<lparr>name = Str ''Perth'', address = ''WA, Australia'', city = Str ''Perth'',
        state = Str ''WA'', country = Str ''Australia'', exactMatch = Some City\<rparr>,
      \<lparr>name = Str ''Perth'', address = '''', city = Str ''Perth'',
        state = Str ''Perth'', country = Str ''Perth'', exactMatch = Some Country\<rparr>,
      \<lparr>name = Str ''Perthville'', address = ''NSW, Australia'', city = Str ''Perthville'',
        state = Str ''NSW'', country = Str ''Australia'', exactMatch = None\<rparr>]"
proof -
  let ?a = "\<lparr>name = Str ''Perth'', address = ''WA, Australia'', city = Str ''Perth'',
        state = Str ''WA'', country = Str ''Australia'', exactMatch = Some City\<rparr>"
  let ?b = "\<lparr>name = Str ''Perth'', address = '''', city = Str ''Perth'',
        state = Str ''Perth'', country = Str ''Perth'', exactMatch = Some Country\<rparr>"
  let ?c = "\<lparr>name = Str ''Perthville'', address = ''NSW, Australia'', city = Str ''Perthville'',
        state = Str ''NSW'', country = Str ''Australia'', exactMatch = None\<rparr>"
  let ?preds =
    "[[''Perthville'', ''NSW'', ''Australia''], [''Perth''], [''Perth'', ''WA'', ''Australia'']]"
  note inst = sort_stable_descending [of "[]" ?a ?b ?c "''perth''" ?preds]
  have h: "exactMatch ?a = Some City \<and> exactMatch ?b = Some Country \<and> exactMatch ?c = None"
    by simp
  with inst have s: "sort_js compare_places [?a, ?b, ?c] = [?a, ?b, ?c]"
    by blast
  have t: "transform ''perth'' ?preds = Inr [?a, ?b, ?c]"
    by code_simp
  with inst have d: "sorted_wrt (\<lambda>a b. weight b \<le> weight a) [?a, ?b, ?c]"
    by blast
  from s t d show ?thesis by blast
qed


section \<open>The whole transform\<close>

lemma map_js_defined:
  "\<forall>x\<in>set xs. defined_fields x \<Longrightarrow> \<exists>ys. map_js (assign_exactMatch il) xs = Inr ys"
proof (induction xs)
  case Nil
  show ?case by simp
next
  case (Cons x xs)
  then obtain ys where "map_js (assign_exactMatch il) xs = Inr ys" by auto
  moreover obtain x' where "assign_exactMatch il x = Inr x'"
    using assign_defined [of x il] Cons.prems by auto
  ultimately show ?case by simp
qed

lemma filteredResults_total:
  "\<exists>out. filteredResults (toLowerCase input) (placeSuggestions preds) = Inr out"
proof -
  let ?kept = "filter (matches_input input) (placeSuggestions preds)"
  have "\<forall>x\<in>set ?kept. defined_fields x"
    by (auto simp: placeSuggestions_def defined_fields_parse)
  then obtain ys where "map_js (assign_exactMatch (toLowerCase input)) ?kept = Inr ys"
    using map_js_defined by blast
  then show ?thesis by (simp add: filteredResults_def filter_parsed)
qed

text \<open>
  Claim C8: the transform is total. For every input string and every list of term lists, of
  any lengths, parsing, filtering, flagging, sorting and removing duplicates end without a
  TypeError and give an output list: every field a method is called on was given a string by
  the \<^verbatim>\<open>|| ''\<close> of the parse step.
\<close>

theorem transform_total:
  "\<exists>out. transform input preds = Inr out"
  using filteredResults_total [of input preds] by (auto simp: transform_def)

text \<open>
  Claim C10: no two elements at different positions of the transform's output have the same
  \<open>name\<close> and the same \<open>address\<close>.
\<close>

theorem output_distinct_pairs:
  "transform input preds = Inr out \<Longrightarrow> distinct (map (\<lambda>p. (name p, address p)) out)"
  by (auto simp: transform_def split: sum.splits
      intro: distinct_pairs_of_keys distinct_keys_unique)

theorem output_distinct_pairs_witness:
  "distinct (map (\<lambda>p. (name p, address p))
     [\<lparr>name = Str ''Sydney'', address = ''NSW, Australia'', city = Str ''Sydney'',
        state = Str ''NSW'', country = Str ''Australia'', exactMatch = Some State\<rparr>,
      \<lparr>name = Str ''Newcastle'', address = ''NSW, Australia'', city = Str ''Newcastle'',
        state = Str ''NSW'', country = Str ''Australia'', exactMatch = Some State\<rparr>])"
proof -
  have "transform ''NSW''
          [[''Sydney'', ''NSW'', ''Australia''], [''Sydney'', ''NSW'', ''Australia''],
           [''Newcastle'', ''NSW'', ''Australia'']]
    = Inr [\<lparr>name = Str ''Sydney'', address = ''NSW, Australia'', city = Str ''Sydney'',
        state = Str ''NSW'', country = Str ''Australia'', exactMatch = Some State\<rparr>,
      \<lparr>name = Str ''Newcastle'', address = ''NSW, Australia'', city = Str ''Newcastle'',
        state = Str ''NSW'', country = Str ''Australia'', exactMatch = Some State\<rparr>]"
    by code_simp
  then show ?thesis by (rule output_distinct_pairs)
qed


section \<open>The handler\<close>

lemma autocomplete_blank:
  "input = Undefined \<or> (\<exists>s. input = Str s \<and> trim s = []) \<Longrightarrow>
   autocomplete google input
     = (\<lparr>status = 400, body = ErrorBody ''Input parameter is required''\<rparr>, [])"
  by (cases input) (auto simp add: autocomplete_def js_not_def)

lemma autocomplete_events:
  assumes "TransformRun s \<in> set (snd (autocomplete google input))"
  shows "input = Str s \<and> s \<noteq> [] \<and> trim s \<noteq> []"
proof (cases input)
  case Undefined
  with assms show ?thesis by (simp add: autocomplete_def js_not_def)
next
  case (Str t)
  show ?thesis
  proof (cases "t = [] \<or> trim t = []")
    case True
    with Str assms show ?thesis by (simp add: autocomplete_def js_not_def)
  next
    case False
    then have run: "autocomplete google (Str t) =
      (case google t of
         Rejected \<Rightarrow>
           (\<lparr>status = 500, body = ErrorBody ''Internal server error''\<rparr>, [UpstreamCall t])
       | Resolved d \<Rightarrow>
           if gstatus d \<noteq> ''OK''
           then (\<lparr>status = 500,
                  body = ErrorDetails ''Failed to fetch autocomplete suggestions'' d\<rparr>,
                 [UpstreamCall t])
           else (case transform t (predictions d) of
                   Inl e \<Rightarrow>
                     (\<lparr>status = 500, body = ErrorBody ''Internal server error''\<rparr>,
                      [UpstreamCall t, TransformRun t])
                 | Inr out \<Rightarrow>
                     (\<lparr>status = 200, body = Results out\<rparr>,
                      [UpstreamCall t, TransformRun t])))"
      by (simp add: autocomplete_def js_not_def)
    have "set (snd (autocomplete google (Str t))) \<subseteq> {UpstreamCall t, TransformRun t}"
      unfolding run by (simp split: axios_result.split sum.split)
    with assms Str have "s = t" by auto
    with False Str show ?thesis by simp
  qed
qed

text \<open>
  Claim C9: when the \<open>input\<close> query parameter is missing, or is a string that is blank
  after trimming, the handler answers with status 400 and has neither called the upstream
  service nor run the transform; and whenever the transform runs, it runs on the request's
  input, which is then neither empty nor blank.
\<close>

theorem blank_input_client_error:
  "(input = Undefined \<or> (\<exists>s. input = Str s \<and> trim s = []) \<longrightarrow>
      autocomplete google input
        = (\<lparr>status = 400, body = ErrorBody ''Input parameter is required''\<rparr>, [])) \<and>
   (\<forall>s. TransformRun s \<in> set (snd (autocomplete google input)) \<longrightarrow>
      input = Str s \<and> s \<noteq> [] \<and> trim s \<noteq> [])"
  using autocomplete_blank [of input google] autocomplete_events [of _ google input]
  by blast

theorem blank_input_client_error_witness:
  "autocomplete
     (\<lambda>q. Resolved \<lparr>gstatus = ''OK'', predictions = [[''Sydney'', ''NSW'', ''Australia'']]\<rparr>)
     Undefined
     = (\<lparr>status = 400, body = ErrorBody ''Input parameter is required''\<rparr>, []) \<and>
   autocomplete
     (\<lambda>q. Resolved \<lparr>gstatus = ''OK'', predictions = [[''Sydney'', ''NSW'', ''Australia'']]\<rparr>)
     (Str ''  '')
     = (\<lparr>status = 400, body = ErrorBody ''Input parameter is required''\<rparr>, []) \<and>
   TransformRun ''NSW'' \<in> set (snd (autocomplete
     (\<lambda>q. Resolved \<lparr>gstatus = ''OK'', predictions = [[''Sydney'', ''NSW'', ''Australia'']]\<rparr>)
     (Str ''NSW''))) \<and>
   trim ''NSW'' \<noteq> []"
proof -
  let ?g = "\<lambda>q::string.
    Resolved \<lparr>gstatus = ''OK'', predictions = [[''Sydney'', ''NSW'', ''Australia'']]\<rparr>"
  have t1: "trim ''  '' = []" by code_simp
  have t2: "trim ''NSW'' \<noteq> []" by code_simp
  have n: "''NSW'' \<noteq> []" by simp
  have a: "autocomplete ?g Undefined
     = (\<lparr>status = 400, body = ErrorBody ''Input parameter is required''\<rparr>, [])"
    using blank_input_client_error [of Undefined ?g] by blast
  have b: "autocomplete ?g (Str ''  '')
     = (\<lparr>status = 400, body = ErrorBody ''Input parameter is required''\<rparr>, [])"
    using blank_input_client_error [of "Str ''  ''" ?g] t1 by blast
  have r: "TransformRun ''NSW'' \<in> set (snd (autocomplete ?g (Str ''NSW'')))"
    unfolding autocomplete_def js_not_def using t2 n by (simp split: sum.split)
  from a b r t2 show ?thesis by blast
qed

end
